theory Spec2Isabelle
  imports Complex_Main "HOL-Library.AList" "HOL-Library.Sublist"
begin

section \<open>Python values and exceptions\<close>

text \<open>
  The exceptions the modelled code can raise. A function that may raise returns
  \<open>pyexc + 'a\<close>, with \<open>Inl\<close> for the exception.
\<close>

datatype pyexc = ValueError | TypeError | OverflowError | AttributeError | HTTPError

section \<open>Result cache (\<open>async_cache\<close>)\<close>

text \<open>
  The fields of \<open>Settings\<close> (\<open>core.config\<close>) that the cache reads. Their defaults
  are \<open>True\<close>, 3600 and 1000; the environment can set other values.
\<close>

record settings =
  enable_cache :: bool
  cache_ttl :: int
  cache_max_size :: int

text \<open>
  \<open>cache = {}\<close> is a Python dictionary from the key string to the pair
  \<open>(result, expiry)\<close>. A dictionary keeps its keys in insertion order, assigning to
  a present key keeps its place, and \<open>min\<close> walks the items in that order, so the
  dictionary is an association list with \<open>AList.update\<close> for assignment and
  \<open>AList.delete\<close> for \<open>del\<close>.
\<close>

type_synonym 'v cache_item = "string \<times> ('v \<times> rat)"
type_synonym 'v cache = "'v cache_item list"

definition expiry_of :: "'v cache_item \<Rightarrow> rat" where
  "expiry_of x = snd (snd x)"

text \<open>
  \<open>min(cache.items(), key=lambda x: x[1][1])\<close>: Python's \<open>min\<close> keeps the first
  item and replaces it only by an item with a strictly smaller key.
\<close>

fun py_min_items :: "'v cache_item \<Rightarrow> 'v cache_item list \<Rightarrow> 'v cache_item" where
  "py_min_items best [] = best"
| "py_min_items best (x # xs) =
     py_min_items (if expiry_of x < expiry_of best then x else best) xs"

definition oldest_key :: "'v cache \<Rightarrow> pyexc + string" where
  "oldest_key c = (case c of [] \<Rightarrow> Inl ValueError | x # xs \<Rightarrow> Inr (fst (py_min_items x xs)))"

text \<open>
  Lines 51 to 57 of the wrapper, the part that runs after the awaited call has returned:
  \<^verbatim>\<open>
  if len(cache) >= max_items:
      oldest_key = min(cache.items(), key=lambda x: x[1][1])[0]
      del cache[oldest_key]
  cache[cache_key] = (result, now + ttl)
  \<close>
  \<open>min\<close> of an empty sequence raises ValueError, before the dictionary is touched.
\<close>

definition manage_and_store :: "int \<Rightarrow> string \<Rightarrow> 'v \<times> rat \<Rightarrow> 'v cache \<Rightarrow> pyexc + 'v cache" where
  "manage_and_store max_items cache_key entry c =
     (if int (length c) \<ge> max_items
      then (case oldest_key c of
              Inl e \<Rightarrow> Inl e
            | Inr k \<Rightarrow> Inr (AList.update cache_key entry (AList.delete k c)))
      else Inr (AList.update cache_key entry c))"



text \<open>
  The state the decorator closes over: the dictionary and the two counters of
  \<open>cache_info\<close>.
\<close>

record 'v cache_state =
  cache :: "'v cache"
  hits :: nat
  misses :: nat

definition empty_cache_state :: "'v cache_state" where
  "empty_cache_state = \<lparr>cache = [], hits = 0, misses = 0\<rparr>"

text \<open>
  The lookup of lines 41 to 45: the stored result when the key is present and
  \<open>now < expiry\<close>.
\<close>

definition cache_lookup :: "'v cache \<Rightarrow> string \<Rightarrow> rat \<Rightarrow> 'v option" where
  "cache_lookup c cache_key now =
     (case map_of c cache_key of
        None \<Rightarrow> None
      | Some (result, expiry) \<Rightarrow> if now < expiry then Some result else None)"

text \<open>
  One call of \<open>wrapper\<close>. \<open>cache_key\<close> is the string built from the function name
  and the arguments, \<open>now\<close> is \<open>time.time()\<close>, and \<open>func\<close> is the outcome that
  \<open>await func(*args, **kwargs)\<close> has if it is awaited. The result is the outcome of
  the call, whether \<open>func\<close> was awaited, and the new state.
\<close>

definition wrapper ::
  "settings \<Rightarrow> int \<Rightarrow> int \<Rightarrow> string \<Rightarrow> rat \<Rightarrow> (pyexc + 'v) \<Rightarrow> 'v cache_state
     \<Rightarrow> (pyexc + 'v) \<times> bool \<times> 'v cache_state" where
  "wrapper cfg ttl max_items cache_key now func st =
     (if \<not> enable_cache cfg then (func, True, st)
      else case cache_lookup (cache st) cache_key now of
        Some result \<Rightarrow> (Inr result, False, st\<lparr>hits := hits st + 1\<rparr>)
      | None \<Rightarrow>
          (let st1 = st\<lparr>misses := misses st + 1\<rparr> in
           case func of
             Inl e \<Rightarrow> (Inl e, True, st1)
           | Inr result \<Rightarrow>
               (case manage_and_store max_items cache_key (result, now + of_int ttl) (cache st1) of
                  Inl e \<Rightarrow> (Inl e, True, st1)
                | Inr c \<Rightarrow> (Inr result, True, st1\<lparr>cache := c\<rparr>))))"

text \<open>
  A sequence of calls through one wrapper, each with its key, its clock reading and the
  outcome of the wrapped function; the state after the last call.
\<close>

fun run_calls ::
  "settings \<Rightarrow> int \<Rightarrow> int \<Rightarrow> (string \<times> rat \<times> (pyexc + 'v)) list \<Rightarrow> 'v cache_state
     \<Rightarrow> 'v cache_state" where
  "run_calls cfg ttl max_items [] st = st"
| "run_calls cfg ttl max_items ((cache_key, now, func) # calls) st =
     run_calls cfg ttl max_items calls
       (snd (snd (wrapper cfg ttl max_items cache_key now func st)))"

text \<open>
  The invariant of the dictionary: its keys are distinct and it holds at most
  \<open>max_items\<close> entries (none at all when \<open>max_items\<close> is not positive).
\<close>

definition cache_inv :: "int \<Rightarrow> 'v cache \<Rightarrow> bool" where
  "cache_inv max_items c \<longleftrightarrow> distinct (map fst c) \<and> int (length c) \<le> max 0 max_items"

text \<open>A configuration and two calls used to run the wrapper on concrete values.\<close>

definition demo_cfg :: settings where
  "demo_cfg = \<lparr>enable_cache = True, cache_ttl = 300, cache_max_size = 2\<rparr>"

definition demo_calls :: "(string \<times> rat \<times> (pyexc + nat)) list" where
  "demo_calls = [(''a'', 0, Inr 1), (''b'', 1, Inr 2)]"

section \<open>JSON values\<close>

text \<open>
  What \<open>response.json()\<close> delivers, as far as the code reads it: \<open>null\<close>, strings
  and numbers as field values, and objects as dictionaries from field names to values.
  Strings are lists of characters with code points below 256.
\<close>

datatype jval = JNull | JStr string | JNum rat

type_synonym jdict = "(string \<times> jval) list"

text \<open>\<open>d.get(key, default)\<close>.\<close>

definition dict_get :: "jdict \<Rightarrow> string \<Rightarrow> jval \<Rightarrow> jval" where
  "dict_get d k dflt = (case map_of d k of None \<Rightarrow> dflt | Some v \<Rightarrow> v)"

section \<open>Repository (\<open>MFAPIRepository\<close>)\<close>








text \<open>One entry of a fund listing, used to run the code on concrete values.\<close>

definition hdfc_top_100 :: jdict where
  "hdfc_top_100 =
     [(''schemeCode'', JNum 119010), (''schemeName'', JStr ''HDFC Top 100 Fund-Growth Option'')]"

section \<open>Python string operations\<close>

text \<open>
  \<open>str.lower()\<close> on code points below 256: the letters A to Z and the capital
  letters of Latin-1 (192 to 222 without the multiplication sign 215) move up by 32.
\<close>

definition lower_char :: "char \<Rightarrow> char" where
  "lower_char c =
     (let n = (of_char c :: nat)
      in if (65 \<le> n \<and> n \<le> 90) \<or> (192 \<le> n \<and> n \<le> 222 \<and> n \<noteq> 215)
         then char_of (n + 32) else c)"

definition py_lower :: "string \<Rightarrow> string" where
  "py_lower s = map lower_char s"

text \<open>
  The characters \<open>str.split()\<close> treats as white space, among the code points below 256:
  tab to carriage return, the four separators 28 to 31, the space, 133 and 160.
\<close>

definition is_space :: "char \<Rightarrow> bool" where
  "is_space c =
     (let n = (of_char c :: nat)
      in (9 \<le> n \<and> n \<le> 13) \<or> (28 \<le> n \<and> n \<le> 32) \<or> n = 133 \<or> n = 160)"

text \<open>
  \<open>s.split()\<close> without arguments: the maximal runs of characters that are not white
  space, in order. \<open>w\<close> is the run being read.
\<close>

fun split_run :: "string \<Rightarrow> string \<Rightarrow> string list" where
  "split_run w [] = (if w = [] then [] else [w])"
| "split_run w (c # cs) =
     (if is_space c then (if w = [] then split_run [] cs else w # split_run [] cs)
      else split_run (w @ [c]) cs)"

definition py_split :: "string \<Rightarrow> string list" where
  "py_split s = split_run [] s"

text \<open>\<open>t in s\<close> for strings: \<open>t\<close> occurs in \<open>s\<close> as a contiguous substring.\<close>

fun py_in :: "string \<Rightarrow> string \<Rightarrow> bool" where
  "py_in t [] = (t = [])"
| "py_in t (c # cs) = (prefix t (c # cs) \<or> py_in t cs)"

section \<open>Fund lookup service (\<open>MutualFundService\<close>)\<close>

text \<open>
  Modelled from the spec: \<open>FundSummary\<close> of \<open>schemas.fund\<close>, which is not among the
  sources. The spec gives it a scheme code, a scheme name, a fund house and a category;
  the constructor is taken to keep its four arguments as they are passed.
\<close>

record FundSummary =
  scheme_code :: jval
  scheme_name :: jval
  fund_house :: string
  category :: string

definition common_fund_houses :: "string list" where
  "common_fund_houses =
     [''HDFC'', ''SBI'', ''ICICI'', ''Axis'', ''Kotak'', ''Aditya Birla'',
      ''Nippon'', ''DSP'', ''UTI'', ''IDFC'', ''Franklin'', ''Tata'', ''Mirae'',
      ''Invesco'', ''Canara'', ''L&T'', ''Motilal'', ''Parag Parikh'', ''Edelweiss'']"

text \<open>\<open>_extract_fund_house\<close>: the first fund house of the list that occurs in the name.\<close>

fun first_fund_house :: "string list \<Rightarrow> string \<Rightarrow> string" where
  "first_fund_house [] name = []"
| "first_fund_house (house # rest) name =
     (if py_in house name then house else first_fund_house rest name)"

definition extract_fund_house :: "string \<Rightarrow> string" where
  "extract_fund_house name = first_fund_house common_fund_houses name"

text \<open>\<open>_categorize_fund\<close>: the first category one of whose keywords occurs in the
  lowercase name.\<close>

definition categorize_fund :: "string \<Rightarrow> string" where
  "categorize_fund name =
     (let scheme_name_lower = py_lower name in
      if list_ex (\<lambda>term. py_in term scheme_name_lower)
           [''equity'', ''large cap'', ''mid cap'', ''small cap'', ''flexi cap'']
      then ''Equity''
      else if list_ex (\<lambda>term. py_in term scheme_name_lower)
           [''debt'', ''bond'', ''income'', ''liquid'', ''gilt'']
      then ''Debt''
      else if list_ex (\<lambda>term. py_in term scheme_name_lower)
           [''hybrid'', ''balanced'', ''equity savings'']
      then ''Hybrid''
      else if list_ex (\<lambda>term. py_in term scheme_name_lower)
           [''retirement'', ''children'', ''tax saver'', ''elss'']
      then ''Solution Oriented''
      else ''Other'')"

text \<open>
  A field value used as a string: \<open>.lower()\<close> on \<open>None\<close> or on a number raises
  AttributeError.
\<close>

fun as_str :: "jval \<Rightarrow> pyexc + string" where
  "as_str (JStr s) = Inr s"
| "as_str JNull = Inl AttributeError"
| "as_str (JNum r) = Inl AttributeError"

text \<open>
  The loop of \<open>search_funds\<close> over \<open>all_funds\<close>, with \<open>filtered_funds\<close> as the
  accumulator. The length is compared with \<open>limit\<close> after the summary is appended.
\<close>

fun search_loop ::
  "string list \<Rightarrow> int \<Rightarrow> jdict list \<Rightarrow> FundSummary list \<Rightarrow> pyexc + FundSummary list" where
  "search_loop query_terms limit [] filtered_funds = Inr filtered_funds"
| "search_loop query_terms limit (fund # rest) filtered_funds =
     (case as_str (dict_get fund ''schemeName'' (JStr [])) of
        Inl e \<Rightarrow> Inl e
      | Inr name \<Rightarrow>
          if list_all (\<lambda>term. py_in term (py_lower name)) query_terms
          then (let filtered_funds' = filtered_funds @
                      [\<lparr>scheme_code = dict_get fund ''schemeCode'' JNull,
                        scheme_name = dict_get fund ''schemeName'' JNull,
                        fund_house = extract_fund_house name,
                        category = categorize_fund name\<rparr>]
                in if int (length filtered_funds') \<ge> limit then Inr filtered_funds'
                   else search_loop query_terms limit rest filtered_funds')
          else search_loop query_terms limit rest filtered_funds)"

text \<open>
  \<open>MutualFundService.search_funds\<close>. \<open>all_funds\<close> is the outcome of
  \<open>await self.repository.get_all_funds()\<close>; every exception ends in \<open>return []\<close>.
\<close>

definition search_funds :: "(pyexc + jdict list) \<Rightarrow> string \<Rightarrow> int \<Rightarrow> FundSummary list" where
  "search_funds all_funds query limit =
     (case all_funds of
        Inl e \<Rightarrow> []
      | Inr funds \<Rightarrow>
          (case search_loop (py_split (py_lower query)) limit funds [] of
             Inl e \<Rightarrow> []
           | Inr filtered_funds \<Rightarrow> filtered_funds))"

text \<open>
  A fund of the listing that the terms do not match: its name is a string (or missing,
  which reads as the empty string) and some term does not occur in the lowercase name.
\<close>

definition no_match :: "string list \<Rightarrow> jdict \<Rightarrow> bool" where
  "no_match query_terms fund =
     (case dict_get fund ''schemeName'' (JStr []) of
        JStr name \<Rightarrow> \<not> list_all (\<lambda>term. py_in term (py_lower name)) query_terms
      | _ \<Rightarrow> False)"

text \<open>A fund whose name, if present, is a string, and the summary the loop builds for it.\<close>

definition has_name :: "jdict \<Rightarrow> bool" where
  "has_name fund = (case dict_get fund ''schemeName'' (JStr []) of JStr name \<Rightarrow> True | _ \<Rightarrow> False)"

definition summary_of :: "jdict \<Rightarrow> FundSummary" where
  "summary_of fund =
     (case dict_get fund ''schemeName'' (JStr []) of
        JStr name \<Rightarrow>
          \<lparr>scheme_code = dict_get fund ''schemeCode'' JNull,
           scheme_name = dict_get fund ''schemeName'' JNull,
           fund_house = extract_fund_house name,
           category = categorize_fund name\<rparr>
      | _ \<Rightarrow>
          \<lparr>scheme_code = dict_get fund ''schemeCode'' JNull,
           scheme_name = dict_get fund ''schemeName'' JNull,
           fund_house = [], category = []\<rparr>)"

text \<open>Two more entries of a fund listing.\<close>

definition hdfc_equity :: jdict where
  "hdfc_equity =
     [(''schemeCode'', JNum 101762), (''schemeName'', JStr ''HDFC Equity Fund-Growth'')]"

definition icici_bluechip :: jdict where
  "icici_bluechip =
     [(''schemeCode'', JNum 120465), (''schemeName'', JStr ''ICICI Bluechip Fund-Growth'')]"

section \<open>Dates: \<open>datetime.strptime(s, "%d-%m-%Y")\<close>\<close>

text \<open>
  The library parses the format through the regular expression
  \<^verbatim>\<open>(?P<d>3[0-1]|[1-2]\d|0[1-9]|[1-9]| [1-9])-(?P<m>1[0-2]|0[1-9]|[1-9])-(?P<Y>\d\d\d\d)\<close>
  matched at the start of the string, and rejects text left over after the match. No
  form of the day or the month contains a hyphen, so the day is the text before the first
  hyphen, the month the text between the first and the second, and the year the rest,
  which must be exactly four digits.
\<close>

definition is_digit :: "char \<Rightarrow> bool" where
  "is_digit c = (let n = (of_char c :: int) in 48 \<le> n \<and> n \<le> 57)"

definition digit_of :: "char \<Rightarrow> int" where
  "digit_of c = (of_char c :: int) - 48"

fun parse_day :: "string \<Rightarrow> int option" where
  "parse_day [a] = (if is_digit a \<and> digit_of a \<noteq> 0 then Some (digit_of a) else None)"
| "parse_day [a, b] =
     (if a = CHR ''3'' \<and> (b = CHR ''0'' \<or> b = CHR ''1'') then Some (30 + digit_of b)
      else if (a = CHR ''1'' \<or> a = CHR ''2'') \<and> is_digit b then Some (10 * digit_of a + digit_of b)
      else if (a = CHR ''0'' \<or> a = CHR '' '') \<and> is_digit b \<and> digit_of b \<noteq> 0 then Some (digit_of b)
      else None)"
| "parse_day s = None"

fun parse_month :: "string \<Rightarrow> int option" where
  "parse_month [a] = (if is_digit a \<and> digit_of a \<noteq> 0 then Some (digit_of a) else None)"
| "parse_month [a, b] =
     (if a = CHR ''1'' \<and> (b = CHR ''0'' \<or> b = CHR ''1'' \<or> b = CHR ''2'') then Some (10 + digit_of b)
      else if a = CHR ''0'' \<and> is_digit b \<and> digit_of b \<noteq> 0 then Some (digit_of b)
      else None)"
| "parse_month s = None"

fun parse_year :: "string \<Rightarrow> int option" where
  "parse_year [a, b, c, d] =
     (if is_digit a \<and> is_digit b \<and> is_digit c \<and> is_digit d
      then Some (1000 * digit_of a + 100 * digit_of b + 10 * digit_of c + digit_of d)
      else None)"
| "parse_year s = None"

text \<open>The text before the first hyphen and the text after it.\<close>

definition split_hyphen :: "string \<Rightarrow> (string \<times> string) option" where
  "split_hyphen s =
     (case dropWhile (\<lambda>c. c \<noteq> CHR ''-'') s of
        [] \<Rightarrow> None
      | h # rest \<Rightarrow> Some (takeWhile (\<lambda>c. c \<noteq> CHR ''-'') s, rest))"

text \<open>
  The proleptic Gregorian calendar of \<open>datetime\<close>. A date is its ordinal, the number of
  the day counted from 1 for 1 January of year 1 (\<open>toordinal\<close>). Every \<open>datetime\<close> the
  code builds is at midnight, so a difference of two of them is a whole number of days.
\<close>

definition is_leap :: "int \<Rightarrow> bool" where
  "is_leap y = (y mod 4 = 0 \<and> (y mod 100 \<noteq> 0 \<or> y mod 400 = 0))"

definition days_in_month :: "int \<Rightarrow> int \<Rightarrow> int" where
  "days_in_month y m =
     (if m = 2 then (if is_leap y then 29 else 28)
      else if m = 4 \<or> m = 6 \<or> m = 9 \<or> m = 11 then 30 else 31)"

definition days_before_year :: "int \<Rightarrow> int" where
  "days_before_year y = (y - 1) * 365 + (y - 1) div 4 - (y - 1) div 100 + (y - 1) div 400"

text \<open>The days of a year before the first of month \<open>m\<close>, for \<open>m\<close> from 1 to 12.\<close>

definition days_before_month :: "int \<Rightarrow> int \<Rightarrow> int" where
  "days_before_month y m =
     [0, 31, 59, 90, 120, 151, 181, 212, 243, 273, 304, 334] ! nat (m - 1)
       + (if 2 < m \<and> is_leap y then 1 else 0)"

definition ymd2ord :: "int \<Rightarrow> int \<Rightarrow> int \<Rightarrow> int" where
  "ymd2ord y m d = days_before_year y + days_before_month y m + d"

text \<open>
  The parsed fields make a date when the year is at least 1 (\<open>MINYEAR\<close>) and the day
  exists in the month; otherwise the constructor raises ValueError, as a string that does
  not match the format does.
\<close>

definition parse_dmy :: "string \<Rightarrow> int option" where
  "parse_dmy s =
     (case split_hyphen s of
        None \<Rightarrow> None
      | Some (ds, rest) \<Rightarrow>
          (case split_hyphen rest of
             None \<Rightarrow> None
           | Some (ms, ys) \<Rightarrow>
               (case (parse_day ds, parse_month ms, parse_year ys) of
                  (Some d, Some m, Some y) \<Rightarrow>
                    if 1 \<le> y \<and> d \<le> days_in_month y m then Some (ymd2ord y m d) else None
                | _ \<Rightarrow> None)))"

text \<open>\<open>strptime\<close> of a field value: an argument that is not a string raises TypeError.\<close>

fun strptime :: "jval \<Rightarrow> pyexc + int" where
  "strptime (JStr s) = (case parse_dmy s of None \<Rightarrow> Inl ValueError | Some d \<Rightarrow> Inr d)"
| "strptime JNull = Inl TypeError"
| "strptime (JNum r) = Inl TypeError"

section \<open>Return calculator (\<open>_calculate_returns\<close>)\<close>

text \<open>
  Floats are modelled by exact rationals. \<open>float(x)\<close> of a number is the number, of
  \<open>None\<close> a TypeError; the conversion of a string is the library's, taken as the
  parameter \<open>pf\<close>, where \<open>None\<close> stands for its ValueError.
\<close>

fun float_of :: "(string \<Rightarrow> rat option) \<Rightarrow> jval \<Rightarrow> pyexc + rat" where
  "float_of pf (JNum r) = Inr r"
| "float_of pf (JStr s) = (case pf s of None \<Rightarrow> Inl ValueError | Some r \<Rightarrow> Inr r)"
| "float_of pf JNull = Inl TypeError"

text \<open>\<open>round(x, 2)\<close>: to the nearest multiple of 1/100, a tie to the even one.\<close>

definition round_half_even :: "rat \<Rightarrow> int" where
  "round_half_even x =
     (let f = \<lfloor>x\<rfloor>; d = x - of_int f
      in if d < 1 / 2 then f else if 1 / 2 < d then f + 1 else if even f then f else f + 1)"

definition py_round2 :: "rat \<Rightarrow> rat" where
  "py_round2 x = of_int (round_half_even (x * 100)) / 100"

text \<open>The two fields of an entry as the code reads them.\<close>

definition entry_date :: "jdict \<Rightarrow> pyexc + int" where
  "entry_date entry = strptime (dict_get entry ''date'' (JStr []))"

definition entry_nav :: "(string \<Rightarrow> rat option) \<Rightarrow> jdict \<Rightarrow> pyexc + rat" where
  "entry_nav pf entry = float_of pf (dict_get entry ''nav'' (JNum 0))"

text \<open>
  The inner loop, lines 270 to 279, with the pair \<open>(min_diff, closest_nav)\<close> as its
  state. ValueError and TypeError of the body are caught and the entry is passed over;
  \<open>min_diff\<close> is assigned before \<open>float\<close> is called, so it keeps the new value when
  \<open>float\<close> raises.
\<close>

fun scan_entries ::
  "(string \<Rightarrow> rat option) \<Rightarrow> int \<Rightarrow> jdict list \<Rightarrow> int \<times> rat option \<Rightarrow> int \<times> rat option" where
  "scan_entries pf target_date [] st = st"
| "scan_entries pf target_date (entry # rest) (min_diff, closest_nav) =
     (case entry_date entry of
        Inl e \<Rightarrow> scan_entries pf target_date rest (min_diff, closest_nav)
      | Inr d \<Rightarrow>
          (let diff = \<bar>d - target_date\<bar> in
           if diff < min_diff
           then (case entry_nav pf entry of
                   Inl e \<Rightarrow> scan_entries pf target_date rest (diff, closest_nav)
                 | Inr v \<Rightarrow> scan_entries pf target_date rest (diff, Some v))
           else scan_entries pf target_date rest (min_diff, closest_nav)))"

text \<open>
  One round of the outer loop: the return of one period, \<open>None\<close> when the period is
  left out. \<open>latest_date - period_delta\<close> raises OverflowError when it falls before
  the first day of year 1. \<open>min_diff\<close> starts at 365 days.
\<close>

definition period_return ::
  "(string \<Rightarrow> rat option) \<Rightarrow> rat \<Rightarrow> int \<Rightarrow> jdict list \<Rightarrow> int \<Rightarrow> pyexc + rat option" where
  "period_return pf latest_nav latest_date nav_data period_delta =
     (let target_date = latest_date - period_delta in
      if target_date < 1 then Inl OverflowError
      else (case snd (scan_entries pf target_date nav_data (365, None)) of
              None \<Rightarrow> Inr None
            | Some closest_nav \<Rightarrow>
                if closest_nav \<noteq> 0 \<and> closest_nav > 0
                then Inr (Some (py_round2 (((latest_nav - closest_nav) / closest_nav) * 100)))
                else Inr None))"

definition periods :: "(string \<times> int) list" where
  "periods = [(''1M'', 30), (''3M'', 91), (''6M'', 182), (''1Y'', 365), (''3Y'', 1095), (''5Y'', 1825)]"

fun periods_loop ::
  "(string \<Rightarrow> rat option) \<Rightarrow> rat \<Rightarrow> int \<Rightarrow> jdict list \<Rightarrow> (string \<times> int) list
     \<Rightarrow> (string \<times> rat) list \<Rightarrow> pyexc + (string \<times> rat) list" where
  "periods_loop pf latest_nav latest_date nav_data [] returns = Inr returns"
| "periods_loop pf latest_nav latest_date nav_data ((period_key, period_delta) # rest) returns =
     (case period_return pf latest_nav latest_date nav_data period_delta of
        Inl e \<Rightarrow> Inl e
      | Inr None \<Rightarrow> periods_loop pf latest_nav latest_date nav_data rest returns
      | Inr (Some period_ret) \<Rightarrow>
          periods_loop pf latest_nav latest_date nav_data rest
            (AList.update period_key period_ret returns))"

text \<open>
  \<open>_calculate_returns\<close>. The result dictionary is an association list in insertion
  order. Only the ValueError of the first date is caught, by \<open>return returns\<close>.
\<close>

definition calculate_returns ::
  "(string \<Rightarrow> rat option) \<Rightarrow> jdict list \<Rightarrow> pyexc + (string \<times> rat) list" where
  "calculate_returns pf nav_data =
     (case nav_data of
        first # second # others \<Rightarrow>
          (case entry_nav pf first of
             Inl e \<Rightarrow> Inl e
           | Inr latest_nav \<Rightarrow>
               (case entry_date first of
                  Inl e \<Rightarrow> if e = ValueError then Inr [] else Inl e
                | Inr latest_date \<Rightarrow>
                    periods_loop pf latest_nav latest_date nav_data periods []))
      | _ \<Rightarrow> Inr [])"

text \<open>Entries of a valuation history, used to run the code on concrete values.\<close>

definition nav_entry :: "string \<Rightarrow> rat \<Rightarrow> jdict" where
  "nav_entry d v = [(''date'', JStr d), (''nav'', JNum v)]"

text \<open>
  An entry both of whose fields the code can read: the date parses and the value
  converts to a float.
\<close>

definition well_formed :: "(string \<Rightarrow> rat option) \<Rightarrow> jdict \<Rightarrow> bool" where
  "well_formed pf entry =
     (case (entry_date entry, entry_nav pf entry) of (Inr d, Inr v) \<Rightarrow> True | _ \<Rightarrow> False)"


definition date_diff :: "int \<Rightarrow> jdict \<Rightarrow> int" where
  "date_diff target_date entry =
     (case entry_date entry of Inr d \<Rightarrow> \<bar>d - target_date\<bar> | Inl e \<Rightarrow> 0)"

text \<open>
  Entry \<open>i\<close> is the one the scan selects: it lies less than 365 days from the target
  date, no entry lies nearer, and every entry before it lies strictly farther.
\<close>

definition nearest_within_year :: "int \<Rightarrow> jdict list \<Rightarrow> nat \<Rightarrow> bool" where
  "nearest_within_year target_date nav_data i =
     (i < length nav_data
      \<and> date_diff target_date (nav_data ! i) < 365
      \<and> list_all (\<lambda>e. date_diff target_date (nav_data ! i) \<le> date_diff target_date e) nav_data
      \<and> list_all (\<lambda>e. date_diff target_date (nav_data ! i) < date_diff target_date e)
            (take i nav_data))"

text \<open>The state of the scan after the entries \<open>seen\<close>.\<close>

definition scan_inv ::
  "(string \<Rightarrow> rat option) \<Rightarrow> int \<Rightarrow> jdict list \<Rightarrow> int \<times> rat option \<Rightarrow> bool" where
  "scan_inv pf target_date seen st =
     (case snd st of
        None \<Rightarrow> fst st = 365 \<and> list_all (\<lambda>e. 365 \<le> date_diff target_date e) seen
      | Some v \<Rightarrow>
          (\<exists>i. nearest_within_year target_date seen i
               \<and> fst st = date_diff target_date (seen ! i)
               \<and> entry_nav pf (seen ! i) = Inr v))"

text \<open>
  Histories used to run the calculator on concrete values; \<open>no_float\<close> is a string
  conversion that accepts nothing (the values below are numbers).
\<close>

definition no_float :: "string \<Rightarrow> rat option" where
  "no_float s = None"

definition tie_history :: "jdict list" where
  "tie_history =
     [nav_entry ''21-04-2023'' 110, nav_entry ''20-04-2022'' 100, nav_entry ''22-04-2022'' 105]"

definition far_history :: "jdict list" where
  "far_history = [nav_entry ''21-04-2023'' 100, nav_entry ''21-04-2020'' 50]"


section \<open>Query analyzer (\<open>QueryAnalyzer\<close>)\<close>

text \<open>\<open>s.split(sep)\<close> for a separator of one character: the pieces, empty ones kept.\<close>

fun split_on :: "char \<Rightarrow> string \<Rightarrow> string \<Rightarrow> string list" where
  "split_on sep w [] = [w]"
| "split_on sep w (c # cs) =
     (if c = sep then w # split_on sep [] cs else split_on sep (w @ [c]) cs)"

definition py_split_on :: "char \<Rightarrow> string \<Rightarrow> string list" where
  "py_split_on sep s = split_on sep [] s"

text \<open>\<open>s.strip()\<close>: white space removed at both ends.\<close>

definition py_strip :: "string \<Rightarrow> string" where
  "py_strip s = rev (dropWhile is_space (rev (dropWhile is_space s)))"

text \<open>
  \<open>extract_fund_names\<close>: of every line with "fund" in its lowercase form and a colon,
  the text after the first colon, stripped, unless it is empty or names nothing.
\<close>

definition name_of_line :: "string \<Rightarrow> string list" where
  "name_of_line line =
     (if py_in ''fund'' (py_lower line) \<and> CHR '':'' \<in> set line
      then (let name_part = py_strip (tl (dropWhile (\<lambda>c. c \<noteq> CHR '':'') line))
            in if name_part \<noteq> [] \<and>
                  py_lower name_part \<notin> set [''none'', ''not mentioned'', ''not specified'']
               then [name_part] else [])
      else [])"

definition extract_fund_names :: "string \<Rightarrow> string list" where
  "extract_fund_names analysis = concat (map name_of_line (py_split_on CHR ''\<newline>'' analysis))"

text \<open>
  \<open>re.search(r'\[(.+?)\]', text, re.DOTALL)\<close>: the span starts at the first opening
  bracket, holds at least one character, and ends before the first closing bracket
  after that character. When the first opening bracket has no such closing bracket, no
  later one has, and there is no match.
\<close>

definition bracket_span :: "string \<Rightarrow> string option" where
  "bracket_span s =
     (case dropWhile (\<lambda>c. c \<noteq> CHR ''['') s of
        ob # c # rest \<Rightarrow>
          if CHR '']'' \<in> set rest then Some (c # takeWhile (\<lambda>x. x \<noteq> CHR '']'') rest) else None
      | _ \<Rightarrow> None)"

text \<open>
  \<open>re.findall\<close> of a quote, one or more characters other than the quote, and the
  quote again. \<open>run\<close> is \<open>None\<close> outside a quotation and the text read since the
  opening quote inside one; a quote that follows an opening quote at once opens anew.
\<close>

fun find_quoted :: "char \<Rightarrow> string option \<Rightarrow> string \<Rightarrow> string list" where
  "find_quoted q run [] = []"
| "find_quoted q None (c # cs) =
     (if c = q then find_quoted q (Some []) cs else find_quoted q None cs)"
| "find_quoted q (Some w) (c # cs) =
     (if c = q then (if w = [] then find_quoted q (Some []) cs else w # find_quoted q None cs)
      else find_quoted q (Some (w @ [c])) cs)"

text \<open>\<open>parse_search_terms\<close>.\<close>

definition parse_search_terms :: "string \<Rightarrow> string list" where
  "parse_search_terms search_terms_text =
     (case bracket_span search_terms_text of
        Some terms_text \<Rightarrow>
          (let terms = find_quoted (CHR 0x22) None terms_text;
               terms = (if terms = [] then find_quoted (CHR 0x27) None terms_text else terms);
               terms = (if terms = [] then map py_strip (py_split_on CHR '','' terms_text) else terms)
           in filter (\<lambda>term. term \<noteq> [] \<and> py_strip term \<noteq> []) terms)
      | None \<Rightarrow>
          if CHR ''\<newline>'' \<in> set search_terms_text
          then filter (\<lambda>term. term \<noteq> [])
                 (map py_strip (py_split_on CHR ''\<newline>'' search_terms_text))
          else filter (\<lambda>term. term \<noteq> [])
                 (map py_strip (py_split_on CHR '','' search_terms_text)))"

definition comparison_keywords :: "string list" where
  "comparison_keywords =
     [''compare'', ''comparison'', ''versus'', ''vs'', ''vs.'',
      ''better'', ''difference'', ''differences'', ''which is better'',
      ''contrast'', ''against'']"

definition is_comparison_query :: "string \<Rightarrow> bool" where
  "is_comparison_query q = list_ex (\<lambda>keyword. py_in keyword (py_lower q)) comparison_keywords"

section \<open>Pipeline stages (\<open>agents.nodes\<close>)\<close>

text \<open>
  The entries of the conversation history: the two message classes of the stages, and the
  dictionaries \<open>{"type": ..., "content": ...}\<close> that a caller may pass in.
\<close>

datatype message = HumanMessage string | AIMessage string | HistoryDict string string

text \<open>
  The state dictionary. \<open>query\<close> is always present; a field that is \<open>None\<close> here is
  a key the dictionary does not have. \<open>'d\<close> is the type of \<open>FundDetail\<close>, which the
  stages only pass on.
\<close>

record 'd agent_state =
  query :: string
  chat_history :: "message list option"
  query_analysis :: "string option"
  fund_names :: "string list option"
  search_results :: "FundSummary list option"
  fund_details :: "'d list option"
  fund_analysis :: "string option"
  response :: "string option"
  error :: "string option"

text \<open>
  The five prompt templates of \<open>agents.prompts\<close>, each with the arguments of its
  \<open>format_messages\<close> call. A fund detail stands for its \<open>json.dumps\<close> text.
\<close>

datatype 'd prompt =
    QUERY_ANALYSIS_PROMPT string
  | FUND_SEARCH_PROMPT string "message list"
  | FUND_ANALYSIS_PROMPT string 'd "message list"
  | FUND_COMPARISON_PROMPT string 'd 'd "message list"
  | FINAL_RESPONSE_PROMPT string string "message list"

text \<open>
  The collaborators of the stages. \<open>generate_response\<close> takes the formatted prompt and
  the temperature argument; the two service methods take the number of the call within
  the stage, so that equal arguments may be answered differently. Each of them may raise.
  \<open>exc_text\<close> is \<open>str(e)\<close>.
\<close>

record 'd collaborators =
  generate_response :: "'d prompt \<Rightarrow> rat option \<Rightarrow> pyexc + string"
  service_search_funds :: "nat \<Rightarrow> string \<Rightarrow> int \<Rightarrow> pyexc + FundSummary list"
  service_get_fund_details :: "nat \<Rightarrow> jval \<Rightarrow> bool \<Rightarrow> pyexc + 'd option"
  exc_text :: "pyexc \<Rightarrow> string"

text \<open>\<open>state.get("chat_history", [])\<close> and the other reads with a default.\<close>

definition get_chat_history :: "'d agent_state \<Rightarrow> message list" where
  "get_chat_history state = (case chat_history state of None \<Rightarrow> [] | Some h \<Rightarrow> h)"

definition get_fund_names :: "'d agent_state \<Rightarrow> string list" where
  "get_fund_names state = (case fund_names state of None \<Rightarrow> [] | Some ns \<Rightarrow> ns)"

definition get_search_results :: "'d agent_state \<Rightarrow> FundSummary list" where
  "get_search_results state = (case search_results state of None \<Rightarrow> [] | Some rs \<Rightarrow> rs)"

definition get_fund_details :: "'d agent_state \<Rightarrow> 'd list" where
  "get_fund_details state = (case fund_details state of None \<Rightarrow> [] | Some ds \<Rightarrow> ds)"

definition get_fund_analysis :: "'d agent_state \<Rightarrow> string" where
  "get_fund_analysis state = (case fund_analysis state of None \<Rightarrow> [] | Some a \<Rightarrow> a)"

text \<open>The decimal text of a length, for the f-strings.\<close>

fun show_nat :: "nat \<Rightarrow> string" where
  "show_nat n =
     (if n < 10 then [''0123456789'' ! n]
      else show_nat (n div 10) @ [''0123456789'' ! (n mod 10)])"

text \<open>
  A stage returns the new state and the calls of \<open>generate_response\<close> it made, each
  with its prompt and its temperature argument.
\<close>

type_synonym 'd llm_call = "'d prompt \<times> rat option"

definition analyze_query ::
  "'d collaborators \<Rightarrow> 'd agent_state \<Rightarrow> 'd agent_state \<times> 'd llm_call list" where
  "analyze_query env state =
     (let q = query state; history = get_chat_history state;
          messages = QUERY_ANALYSIS_PROMPT q
      in case generate_response env messages None of
           Inr analysis \<Rightarrow>
             (state\<lparr>query_analysis := Some analysis,
                    fund_names := Some (extract_fund_names analysis),
                    chat_history := Some (history @
                      [HumanMessage q,
                       AIMessage ''I'm analyzing your query about mutual funds.''])\<rparr>,
              [(messages, None)])
         | Inl e \<Rightarrow>
             (state\<lparr>error := Some (''Query analysis failed: '' @ exc_text env e),
                    chat_history := Some (history @ [HumanMessage q])\<rparr>,
              [(messages, None)]))"

text \<open>
  The loops \<open>for ... : results = await search_funds(term, limit=5);
  search_results.extend(results)\<close>; the first call that raises ends the loop.
\<close>

fun search_each ::
  "'d collaborators \<Rightarrow> nat \<Rightarrow> string list \<Rightarrow> pyexc + FundSummary list" where
  "search_each env n [] = Inr []"
| "search_each env n (term # terms) =
     (case service_search_funds env n term 5 of
        Inl e \<Rightarrow> Inl e
      | Inr results \<Rightarrow>
          (case search_each env (Suc n) terms of
             Inl e \<Rightarrow> Inl e
           | Inr others \<Rightarrow> Inr (results @ others)))"

text \<open>
  \<open>{result.scheme_code: result for result in search_results}\<close> and the list of its
  values: a later result with a code already present takes the place of the earlier one.
\<close>

definition unique_results :: "FundSummary list \<Rightarrow> (jval \<times> FundSummary) list" where
  "unique_results results = foldl (\<lambda>d r. AList.update (scheme_code r) r d) [] results"

definition search_funds_node ::
  "'d collaborators \<Rightarrow> 'd agent_state \<Rightarrow> 'd agent_state \<times> 'd llm_call list" where
  "search_funds_node env state =
     (let q = query state; history = get_chat_history state; names = get_fund_names state;
          found = (\<lambda>results.
            state\<lparr>search_results := Some (map snd (unique_results results)),
                   chat_history := Some (history @
                     [AIMessage (''I found '' @ show_nat (length (unique_results results))
                                 @ '' funds that match your query.'')])\<rparr>);
          failed = (\<lambda>e.
            state\<lparr>error := Some (''Fund search failed: '' @ exc_text env e),
                   search_results := Some [],
                   chat_history := Some history\<rparr>)
      in if names \<noteq> []
         then (case search_each env 0 names of
                 Inl e \<Rightarrow> (failed e, [])
               | Inr results \<Rightarrow> (found results, []))
         else (let messages = FUND_SEARCH_PROMPT q history
               in case generate_response env messages None of
                    Inl e \<Rightarrow> (failed e, [(messages, None)])
                  | Inr search_terms_text \<Rightarrow>
                      (let search_terms = parse_search_terms search_terms_text
                       in case search_each env 0 search_terms of
                            Inr results \<Rightarrow> (found results, [(messages, None)])
                          | Inl e1 \<Rightarrow>
                              (case service_search_funds env (length search_terms) q 10 of
                                 Inl e \<Rightarrow> (failed e, [(messages, None)])
                               | Inr results \<Rightarrow> (found results, [(messages, None)])))))"

text \<open>
  The loop of \<open>fetch_fund_details\<close> over \<open>search_results[:max_funds]\<close>: a fund
  without details is left out.
\<close>

fun fetch_each :: "'d collaborators \<Rightarrow> nat \<Rightarrow> FundSummary list \<Rightarrow> pyexc + 'd list" where
  "fetch_each env n [] = Inr []"
| "fetch_each env n (fund # funds) =
     (case service_get_fund_details env n (scheme_code fund) True of
        Inl e \<Rightarrow> Inl e
      | Inr details \<Rightarrow>
          (case fetch_each env (Suc n) funds of
             Inl e \<Rightarrow> Inl e
           | Inr others \<Rightarrow> Inr ((case details of None \<Rightarrow> [] | Some d \<Rightarrow> [d]) @ others)))"

definition fetch_fund_details ::
  "'d collaborators \<Rightarrow> 'd agent_state \<Rightarrow> 'd agent_state \<times> 'd llm_call list" where
  "fetch_fund_details env state =
     (let results = get_search_results state; history = get_chat_history state;
          max_funds = min (length results) 3
      in if max_funds = 0
         then (state\<lparr>fund_details := Some [],
                      chat_history := Some (history @
                        [AIMessage ''I couldn't find any relevant funds to analyze.''])\<rparr>, [])
         else (case fetch_each env 0 (take max_funds results) of
                 Inr details \<Rightarrow>
                   (state\<lparr>fund_details := Some details,
                          chat_history := Some (history @
                            [AIMessage (''I've gathered detailed information on ''
                                        @ show_nat (length details) @ '' funds.'')])\<rparr>, [])
               | Inl e \<Rightarrow>
                   (state\<lparr>error := Some (''Fund details fetch failed: '' @ exc_text env e),
                          fund_details := Some [],
                          chat_history := Some history\<rparr>, [])))"

definition no_funds_response :: string where
  "no_funds_response =
     ''I couldn't find any mutual funds matching your query. Could you please provide more specific information?''"

definition analyze_funds ::
  "'d collaborators \<Rightarrow> 'd agent_state \<Rightarrow> 'd agent_state \<times> 'd llm_call list" where
  "analyze_funds env state =
     (let q = query state; details = get_fund_details state; history = get_chat_history state
      in case details of
           [] \<Rightarrow>
             (state\<lparr>response := Some no_funds_response,
                    chat_history := Some (history @
                      [AIMessage ''I couldn't find any mutual funds matching your query.''])\<rparr>, [])
         | d0 # ds \<Rightarrow>
             (let messages =
                    (case ds of
                       d1 # ds' \<Rightarrow>
                         if is_comparison_query q then FUND_COMPARISON_PROMPT q d0 d1 history
                         else FUND_ANALYSIS_PROMPT q d0 history
                     | [] \<Rightarrow> FUND_ANALYSIS_PROMPT q d0 history)
              in case generate_response env messages None of
                   Inr analysis \<Rightarrow>
                     (state\<lparr>fund_analysis := Some analysis,
                            chat_history := Some (history @
                              [AIMessage ''I've analyzed the fund data based on your query.''])\<rparr>,
                      [(messages, None)])
                 | Inl e \<Rightarrow>
                     (state\<lparr>error := Some (''Fund analysis failed: '' @ exc_text env e),
                            fund_analysis :=
                              Some ''I couldn't analyze the fund data due to a technical error.'',
                            chat_history := Some history\<rparr>,
                      [(messages, None)])))"

definition analysis_failed_response :: string where
  "analysis_failed_response =
     ''I'm sorry, I couldn't complete the analysis of mutual funds based on your query. Please try again with more specific details or check if the fund names are correct.''"

definition no_response_generated :: string where
  "no_response_generated = ''I'm sorry, I couldn't generate a response based on your query.''"

text \<open>
  \<open>if error and not fund_analysis\<close>: the error is present and not the empty string,
  and the analysis text is missing or empty.
\<close>

definition error_recorded :: "'d agent_state \<Rightarrow> bool" where
  "error_recorded state = (case error state of None \<Rightarrow> False | Some e \<Rightarrow> e \<noteq> [])"

definition generate_final_response ::
  "'d collaborators \<Rightarrow> 'd agent_state \<Rightarrow> 'd agent_state \<times> 'd llm_call list" where
  "generate_final_response env state =
     (let q = query state; history = get_chat_history state;
          analysis = get_fund_analysis state
      in if error_recorded state \<and> analysis = []
         then (state\<lparr>response := Some analysis_failed_response,
                      chat_history := Some (history @
                        [AIMessage ''I couldn't complete the analysis of mutual funds.''])\<rparr>, [])
         else (let messages = FINAL_RESPONSE_PROMPT q analysis history
               in case generate_response env messages (Some (3 / 10)) of
                    Inr answer \<Rightarrow>
                      (state\<lparr>response := Some answer,
                             chat_history := Some (history @ [AIMessage answer])\<rparr>,
                       [(messages, Some (3 / 10))])
                  | Inl e \<Rightarrow>
                      (state\<lparr>response :=
                               Some (if analysis \<noteq> [] then analysis else no_response_generated),
                             chat_history := Some (history @
                               [AIMessage ''Here's what I found about the mutual funds you asked about.''])\<rparr>,
                       [(messages, Some (3 / 10))])))"

section \<open>The agent (\<open>FundAdvisorAgent\<close>)\<close>

text \<open>
  The graph has the five stages as nodes and one edge from each to the next, so
  \<open>ainvoke\<close> runs them in this order, each on the state the one before returned.
\<close>

definition run_graph ::
  "'d collaborators \<Rightarrow> 'd agent_state \<Rightarrow> 'd agent_state \<times> 'd llm_call list" where
  "run_graph env state =
     (let (s1, c1) = analyze_query env state;
          (s2, c2) = search_funds_node env s1;
          (s3, c3) = fetch_fund_details env s2;
          (s4, c4) = analyze_funds env s3;
          (s5, c5) = generate_final_response env s4
      in (s5, c1 @ c2 @ c3 @ c4 @ c5))"

definition initial_state :: "string \<Rightarrow> message list \<Rightarrow> 'd agent_state" where
  "initial_state q history =
     \<lparr>query = q, chat_history = Some history, query_analysis = None, fund_names = None,
      search_results = None, fund_details = None, fund_analysis = None, response = None,
      error = None\<rparr>"

text \<open>\<open>process_query\<close>: the response of the final state.\<close>

definition process_query :: "'d collaborators \<Rightarrow> string \<Rightarrow> message list \<Rightarrow> string" where
  "process_query env q history =
     (case response (fst (run_graph env (initial_state q history))) of
        None \<Rightarrow> ''I couldn't generate a response. Please try again.''
      | Some r \<Rightarrow> r)"

text \<open>The two prompts that ask for an analysis of fund data.\<close>

fun is_analysis_prompt :: "'d prompt \<Rightarrow> bool" where
  "is_analysis_prompt (FUND_ANALYSIS_PROMPT q d h) = True"
| "is_analysis_prompt (FUND_COMPARISON_PROMPT q d0 d1 h) = True"
| "is_analysis_prompt p = False"

text \<open>
  Collaborators for a run on concrete values: the text generation names a fund that the
  listing of two funds does not hold, and answers the final prompt with a fixed sentence;
  the search is the service's search over that listing.
\<close>

definition demo_generate :: "jdict prompt \<Rightarrow> rat option \<Rightarrow> pyexc + string" where
  "demo_generate p temperature =
     (case p of
        QUERY_ANALYSIS_PROMPT q \<Rightarrow> Inr ''Fund name: XYZ Growth''
      | FINAL_RESPONSE_PROMPT q context h \<Rightarrow> Inr ''I have no data on that fund.''
      | _ \<Rightarrow> Inr ''ok'')"

definition demo_env :: "jdict collaborators" where
  "demo_env =
     \<lparr>generate_response = demo_generate,
      service_search_funds = (\<lambda>n q limit. Inr (search_funds (Inr [hdfc_top_100, icici_bluechip]) q limit)),
      service_get_fund_details = (\<lambda>n code include_nav_data. Inr None),
      exc_text = (\<lambda>e. [])\<rparr>"



section \<open>Verified properties\<close>

subsection \<open>Result cache: eviction and size bound\<close>

lemma py_min_items_mem: "py_min_items best xs \<in> set (best # xs)"
  by (induction xs arbitrary: best) auto

lemma py_min_items_le_best: "expiry_of (py_min_items best xs) \<le> expiry_of best"
proof (induction xs arbitrary: best)
  case Nil
  show ?case by simp
next
  case (Cons x xs)
  have "expiry_of (py_min_items (if expiry_of x < expiry_of best then x else best) xs)
          \<le> expiry_of (if expiry_of x < expiry_of best then x else best)"
    by (rule Cons.IH)
  also have "\<dots> \<le> expiry_of best" by simp
  finally show ?case by simp
qed

lemma py_min_items_least:
  "y \<in> set (best # xs) \<Longrightarrow> expiry_of (py_min_items best xs) \<le> expiry_of y"
proof (induction xs arbitrary: best)
  case Nil
  then show ?case by simp
next
  case (Cons x xs)
  let ?b = "if expiry_of x < expiry_of best then x else best"
  have le_b: "expiry_of (py_min_items ?b xs) \<le> expiry_of ?b"
    by (rule py_min_items_le_best)
  from Cons.prems consider "y = best" | "y = x" | "y \<in> set xs" by auto
  then show ?case
  proof cases
    case 1
    with le_b show ?thesis by (simp split: if_splits)
  next
    case 2
    with le_b show ?thesis by (simp split: if_splits)
  next
    case 3
    then have "y \<in> set (?b # xs)" by simp
    from Cons.IH [OF this] show ?thesis by simp
  qed
qed

lemma length_alist_delete:
  "distinct (map fst c) \<Longrightarrow> k \<in> fst ` set c \<Longrightarrow> length (AList.delete k c) + 1 = length c"
proof (induction c)
  case Nil
  then show ?case by simp
next
  case (Cons a c)
  obtain ak av where a: "a = (ak, av)" by (cases a)
  show ?case
  proof (cases "ak = k")
    case True
    with Cons.prems a have "k \<notin> fst ` set c" by auto
    then have "AList.delete k c = c" by simp
    with True a show ?thesis by simp
  next
    case False
    with Cons.prems a have "k \<in> fst ` set c" and "distinct (map fst c)" by auto
    with Cons.IH False a show ?thesis by simp
  qed
qed

lemma length_alist_update_le: "length (AList.update k v c) \<le> length c + 1"
  by (induction c) auto

lemma oldest_key_in:
  "oldest_key c = Inr k \<Longrightarrow>
     \<exists>victim\<in>set c. fst victim = k \<and> (\<forall>x\<in>set c. expiry_of victim \<le> expiry_of x)"
proof (cases c)
  case Nil
  assume "oldest_key c = Inr k"
  with Nil show ?thesis by (simp add: oldest_key_def)
next
  case (Cons x xs)
  assume "oldest_key c = Inr k"
  with Cons have k: "k = fst (py_min_items x xs)" by (simp add: oldest_key_def)
  have "py_min_items x xs \<in> set c" using py_min_items_mem [of x xs] Cons by simp
  moreover have "\<forall>y\<in>set c. expiry_of (py_min_items x xs) \<le> expiry_of y"
    using py_min_items_least [of _ x xs] Cons by simp
  ultimately show ?thesis using k by blast
qed

lemma manage_and_store_inv:
  assumes inv: "cache_inv m c" and st: "manage_and_store m k e c = Inr c'"
  shows "cache_inv m c'"
proof (cases "m \<le> int (length c)")
  case True
  with st obtain ok where ok: "oldest_key c = Inr ok"
    and c': "c' = AList.update k e (AList.delete ok c)"
    by (auto simp: manage_and_store_def split: sum.splits)
  from oldest_key_in [OF ok] have mem: "ok \<in> fst ` set c" by force
  from inv have d: "distinct (map fst c)" by (simp add: cache_inv_def)
  from length_alist_delete [OF d mem] have len: "length (AList.delete ok c) + 1 = length c" .
  have "length c' \<le> length (AList.delete ok c) + 1"
    unfolding c' by (rule length_alist_update_le)
  with len have "length c' \<le> length c" by simp
  moreover have "distinct (map fst c')"
    unfolding c' using d by (simp add: distinct_update distinct_delete)
  ultimately show ?thesis using inv by (simp add: cache_inv_def)
next
  case False
  with st have c': "c' = AList.update k e c" by (simp add: manage_and_store_def)
  have "length c' \<le> length c + 1" unfolding c' by (rule length_alist_update_le)
  moreover have "distinct (map fst c')"
    unfolding c' using inv by (simp add: distinct_update cache_inv_def)
  ultimately show ?thesis using False by (simp add: cache_inv_def)
qed

lemma wrapper_inv:
  "cache_inv m (cache st) \<Longrightarrow> cache_inv m (cache (snd (snd (wrapper cfg ttl m k now func st))))"
  by (auto simp: wrapper_def Let_def split: option.splits sum.splits dest: manage_and_store_inv)

lemma run_calls_inv:
  "cache_inv m (cache st) \<Longrightarrow> cache_inv m (cache (run_calls cfg ttl m calls st))"
proof (induction calls arbitrary: st)
  case Nil
  then show ?case by simp
next
  case (Cons a calls)
  obtain k now func where a: "a = (k, now, func)" by (cases a)
  from Cons.prems have "cache_inv m (cache (snd (snd (wrapper cfg ttl m k now func st))))"
    by (rule wrapper_inv)
  from Cons.IH [OF this] a show ?case by simp
qed

text \<open>
  Claim C5. Take any sequence of calls through the wrapper, starting from the empty cache,
  and one more call that misses and whose wrapped function returns, so that the wrapper
  stores its result. If the cache held at least \<open>max_items\<close> entries, exactly one
  entry was deleted before the store, and no entry of the cache had a smaller expiry than
  the deleted one; if it held fewer, nothing was deleted. After the store the cache holds
  at most \<open>max_items\<close> entries.
\<close>

theorem async_cache_evicts_one_and_stays_bounded:
  assumes st: "st = run_calls cfg ttl max_items calls empty_cache_state"
    and en: "enable_cache cfg"
    and miss: "cache_lookup (cache st) cache_key now = None"
    and call: "wrapper cfg ttl max_items cache_key now (Inr v) st = (Inr r, awaited, st')"
  shows "(max_items \<le> int (length (cache st)) \<longrightarrow>
           (\<exists>victim\<in>set (cache st).
              (\<forall>x\<in>set (cache st). expiry_of victim \<le> expiry_of x) \<and>
              length (AList.delete (fst victim) (cache st)) + 1 = length (cache st) \<and>
              cache st' = AList.update cache_key (v, now + of_int ttl)
                            (AList.delete (fst victim) (cache st))))
       \<and> (\<not> max_items \<le> int (length (cache st)) \<longrightarrow>
             cache st' = AList.update cache_key (v, now + of_int ttl) (cache st))
       \<and> int (length (cache st')) \<le> max_items"
proof -
  have inv: "cache_inv max_items (cache st)"
    unfolding st by (rule run_calls_inv) (simp add: cache_inv_def empty_cache_state_def)
  from call en miss obtain c' where store:
      "manage_and_store max_items cache_key (v, now + of_int ttl) (cache st) = Inr c'"
    and c': "cache st' = c'"
    by (auto simp: wrapper_def Let_def split: sum.splits)
  from manage_and_store_inv [OF inv store] c' have inv': "cache_inv max_items (cache st')"
    by simp
  have d: "distinct (map fst (cache st))" using inv by (simp add: cache_inv_def)
  have evict: "\<exists>victim\<in>set (cache st).
              (\<forall>x\<in>set (cache st). expiry_of victim \<le> expiry_of x) \<and>
              length (AList.delete (fst victim) (cache st)) + 1 = length (cache st) \<and>
              cache st' = AList.update cache_key (v, now + of_int ttl)
                            (AList.delete (fst victim) (cache st))"
    if full: "max_items \<le> int (length (cache st))"
  proof -
    from store full obtain ok where ok: "oldest_key (cache st) = Inr ok"
      and eq: "c' = AList.update cache_key (v, now + of_int ttl) (AList.delete ok (cache st))"
      by (auto simp: manage_and_store_def split: sum.splits)
    from oldest_key_in [OF ok] obtain victim where vin: "victim \<in> set (cache st)"
      and vk: "fst victim = ok"
      and vmin: "\<forall>x\<in>set (cache st). expiry_of victim \<le> expiry_of x"
      by blast
    from vin vk have "ok \<in> fst ` set (cache st)" by force
    from length_alist_delete [OF d this]
    have "length (AList.delete ok (cache st)) + 1 = length (cache st)" .
    with vin vk vmin eq c' show ?thesis by blast
  qed
  have noevict: "cache st' = AList.update cache_key (v, now + of_int ttl) (cache st)"
    if "\<not> max_items \<le> int (length (cache st))"
    using that store c' by (simp add: manage_and_store_def)
  have nonempty: "cache st' \<noteq> []"
    using store c' by (auto simp: manage_and_store_def split: if_splits sum.splits)
  have bound: "int (length (cache st')) \<le> max_items"
  proof -
    from nonempty have "0 < length (cache st')" by simp
    moreover from inv' have "int (length (cache st')) \<le> max 0 max_items"
      by (simp add: cache_inv_def)
    ultimately show ?thesis by linarith
  qed
  from evict noevict bound show ?thesis by blast
qed


lemma demo_state:
  "run_calls demo_cfg 300 2 demo_calls empty_cache_state
     = \<lparr>cache = [(''a'', (1, 300)), (''b'', (2, 301))], hits = 0, misses = 2\<rparr>"
  by (simp add: demo_cfg_def demo_calls_def empty_cache_state_def wrapper_def cache_lookup_def
        manage_and_store_def)

theorem async_cache_evicts_one_and_stays_bounded_witness:
  "enable_cache demo_cfg
   \<and> cache_lookup (cache (run_calls demo_cfg 300 2 demo_calls empty_cache_state)) ''c'' 2 = None
   \<and> wrapper demo_cfg 300 2 ''c'' 2 (Inr (3::nat))
         (run_calls demo_cfg 300 2 demo_calls empty_cache_state)
       = (Inr 3, True, \<lparr>cache = [(''b'', (2, 301)), (''c'', (3, 302))], hits = 0, misses = 3\<rparr>)
   \<and> int (length [(''b'', (2::nat, 301::rat)), (''c'', (3, 302))]) \<le> 2"
proof -
  let ?st = "run_calls demo_cfg 300 2 demo_calls empty_cache_state"
  let ?st' = "\<lparr>cache = [(''b'', (2::nat, 301::rat)), (''c'', (3, 302))], hits = 0, misses = 3\<rparr>"
  have en: "enable_cache demo_cfg" by (simp add: demo_cfg_def)
  have miss: "cache_lookup (cache ?st) ''c'' 2 = None"
    by (simp add: demo_state cache_lookup_def)
  have call: "wrapper demo_cfg 300 2 ''c'' 2 (Inr (3::nat)) ?st = (Inr 3, True, ?st')"
    unfolding demo_state
    by (simp add: en wrapper_def cache_lookup_def manage_and_store_def
          oldest_key_def expiry_of_def)
  from async_cache_evicts_one_and_stays_bounded [OF refl en miss call]
  have "int (length (cache ?st')) \<le> 2" by blast
  with en miss call show ?thesis by simp
qed

subsection \<open>Result cache: failures of the cached lookups\<close>










subsection \<open>Fund search\<close>

lemma query_terms_hdfc: "py_split (py_lower ''hdfc top 100'') = [''hdfc'', ''top'', ''100'']"
  by code_simp

lemma lower_hdfc_name:
  "py_lower ''HDFC Top 100 Fund-Growth Option'' = ''hdfc top 100 fund-growth option''"
  by code_simp

lemma match_hdfc_name:
  "list_all (\<lambda>term. py_in term ''hdfc top 100 fund-growth option'') [''hdfc'', ''top'', ''100'']"
  by simp

lemma house_hdfc_name: "extract_fund_house ''HDFC Top 100 Fund-Growth Option'' = ''HDFC''"
  by (simp add: extract_fund_house_def common_fund_houses_def)

lemma category_hdfc_name: "categorize_fund ''HDFC Top 100 Fund-Growth Option'' = ''Other''"
  unfolding categorize_fund_def lower_hdfc_name by simp

lemma search_loop_no_match:
  "list_all (no_match query_terms) funds \<Longrightarrow>
     search_loop query_terms limit (funds @ rest) acc = search_loop query_terms limit rest acc"
proof (induction funds)
  case Nil
  show ?case by simp
next
  case (Cons fund funds)
  from Cons.prems have nm: "no_match query_terms fund"
    and rest: "list_all (no_match query_terms) funds" by simp_all
  from nm obtain name where name: "dict_get fund ''schemeName'' (JStr []) = JStr name"
    and miss: "\<not> list_all (\<lambda>term. py_in term (py_lower name)) query_terms"
    by (auto simp: no_match_def split: jval.splits)
  from name miss Cons.IH [OF rest] show ?case by simp
qed

text \<open>
  Claim C1, as the code has it. The listing holds a fund named
  "HDFC Top 100 Fund-Growth Option" and, before and after it, only funds whose lowercase
  names do not contain all of "hdfc", "top" and "100". Then
  \<open>search_funds("hdfc top 100", limit=5)\<close> returns exactly one summary, for that fund,
  with fund house "HDFC" and category "Other": no keyword of the categories Equity, Debt,
  Hybrid or Solution Oriented occurs in the name.
\<close>

theorem search_hdfc_top_100:
  assumes before: "list_all (no_match [''hdfc'', ''top'', ''100'']) before"
    and after: "list_all (no_match [''hdfc'', ''top'', ''100'']) after"
    and name: "map_of fund ''schemeName'' = Some (JStr ''HDFC Top 100 Fund-Growth Option'')"
  shows "search_funds (Inr (before @ [fund] @ after)) ''hdfc top 100'' 5
           = [\<lparr>scheme_code = dict_get fund ''schemeCode'' JNull,
               scheme_name = JStr ''HDFC Top 100 Fund-Growth Option'',
               fund_house = ''HDFC'', category = ''Other''\<rparr>]"
proof -
  let ?terms = "[''hdfc'', ''top'', ''100'']"
  let ?s = "\<lparr>scheme_code = dict_get fund ''schemeCode'' JNull,
               scheme_name = JStr ''HDFC Top 100 Fund-Growth Option'',
               fund_house = ''HDFC'', category = ''Other''\<rparr>"
  from name have get: "dict_get fund ''schemeName'' dflt = JStr ''HDFC Top 100 Fund-Growth Option''"
    for dflt by (simp add: dict_get_def)
  have "search_loop ?terms 5 (before @ [fund] @ after) [] = search_loop ?terms 5 ([fund] @ after) []"
    using before by (rule search_loop_no_match)
  also have "\<dots> = search_loop ?terms 5 (after @ []) [?s]"
    by (simp add: get lower_hdfc_name house_hdfc_name category_hdfc_name)
  also have "\<dots> = search_loop ?terms 5 [] [?s]"
    using after by (rule search_loop_no_match)
  also have "\<dots> = Inr [?s]" by simp
  finally show ?thesis by (simp add: search_funds_def query_terms_hdfc)
qed


lemma lower_hdfc_equity: "py_lower ''HDFC Equity Fund-Growth'' = ''hdfc equity fund-growth''"
  by code_simp

lemma lower_icici_bluechip: "py_lower ''ICICI Bluechip Fund-Growth'' = ''icici bluechip fund-growth''"
  by code_simp

lemma no_match_hdfc_equity: "no_match [''hdfc'', ''top'', ''100''] hdfc_equity"
  by (simp add: no_match_def hdfc_equity_def dict_get_def lower_hdfc_equity)

lemma no_match_icici_bluechip: "no_match [''hdfc'', ''top'', ''100''] icici_bluechip"
  by (simp add: no_match_def icici_bluechip_def dict_get_def lower_icici_bluechip)

theorem search_hdfc_top_100_witness:
  "list_all (no_match [''hdfc'', ''top'', ''100'']) [hdfc_equity]
   \<and> list_all (no_match [''hdfc'', ''top'', ''100'']) [icici_bluechip]
   \<and> map_of hdfc_top_100 ''schemeName'' = Some (JStr ''HDFC Top 100 Fund-Growth Option'')
   \<and> search_funds (Inr [hdfc_equity, hdfc_top_100, icici_bluechip]) ''hdfc top 100'' 5
       = [\<lparr>scheme_code = JNum 119010,
           scheme_name = JStr ''HDFC Top 100 Fund-Growth Option'',
           fund_house = ''HDFC'', category = ''Other''\<rparr>]"
proof -
  have before: "list_all (no_match [''hdfc'', ''top'', ''100'']) [hdfc_equity]"
    by (simp add: no_match_hdfc_equity)
  have after: "list_all (no_match [''hdfc'', ''top'', ''100'']) [icici_bluechip]"
    by (simp add: no_match_icici_bluechip)
  have name: "map_of hdfc_top_100 ''schemeName'' = Some (JStr ''HDFC Top 100 Fund-Growth Option'')"
    by (simp add: hdfc_top_100_def)
  have code: "dict_get hdfc_top_100 ''schemeCode'' JNull = JNum 119010"
    by (simp add: hdfc_top_100_def dict_get_def)
  from search_hdfc_top_100 [OF before after name] before after name code
  show ?thesis by simp
qed

text \<open>
  Claim C1 as stated fails on the category: for a listing of three funds the one summary
  returned has category "Other", not "Equity".
\<close>

theorem search_hdfc_top_100_category_counterexample:
  "map category (search_funds (Inr [hdfc_equity, hdfc_top_100, icici_bluechip]) ''hdfc top 100'' 5)
     = [''Other'']
   \<and> map category (search_funds (Inr [hdfc_equity, hdfc_top_100, icici_bluechip]) ''hdfc top 100'' 5)
     \<noteq> [''Equity'']"
proof -
  have "search_loop [''hdfc'', ''top'', ''100''] 5 [hdfc_equity, hdfc_top_100, icici_bluechip] []
          = Inr [\<lparr>scheme_code = JNum 119010,
                  scheme_name = JStr ''HDFC Top 100 Fund-Growth Option'',
                  fund_house = ''HDFC'', category = ''Other''\<rparr>]"
    by (simp add: hdfc_equity_def hdfc_top_100_def icici_bluechip_def dict_get_def
          lower_hdfc_equity lower_hdfc_name lower_icici_bluechip
          house_hdfc_name category_hdfc_name)
  then show ?thesis by (simp add: search_funds_def query_terms_hdfc)
qed

lemma blank_query_terms: "py_split (py_lower []) = []"
  by (simp add: py_split_def py_lower_def)

text \<open>
  Claim C10 at the empty query, limit 0 and a listing of two funds: the claim gives
  \<open>min(0, 2) = 0\<close> summaries, the code returns one, because the length is compared
  with the limit only after the first summary has been appended.
\<close>

theorem search_blank_query_limit_zero:
  "search_funds (Inr [hdfc_top_100, icici_bluechip]) [] 0
     = [\<lparr>scheme_code = JNum 119010,
         scheme_name = JStr ''HDFC Top 100 Fund-Growth Option'',
         fund_house = ''HDFC'', category = ''Other''\<rparr>]"
  by (simp add: search_funds_def blank_query_terms hdfc_top_100_def dict_get_def
        house_hdfc_name category_hdfc_name)

text \<open>
  For a limit of at least 1 the empty-term search does return the first
  \<open>min(limit, N)\<close> funds of a listing whose names are strings.
\<close>

lemma lower_char_space: "is_space c \<Longrightarrow> lower_char c = c"
  by (auto simp: is_space_def lower_char_def Let_def)

lemma split_run_blank: "list_all is_space s \<Longrightarrow> split_run [] (py_lower s) = []"
  by (induction s) (simp_all add: py_lower_def lower_char_space)

lemma search_loop_no_terms:
  "list_all has_name funds \<Longrightarrow> int (length acc) < limit \<Longrightarrow>
     search_loop [] limit funds acc
       = Inr (acc @ map summary_of (take (nat limit - length acc) funds))"
proof (induction funds arbitrary: acc)
  case Nil
  show ?case by simp
next
  case (Cons fund funds)
  from Cons.prems(1) have named: "has_name fund" and rest: "list_all has_name funds"
    by simp_all
  from named obtain name where name: "dict_get fund ''schemeName'' (JStr []) = JStr name"
    by (auto simp: has_name_def split: jval.splits)
  let ?acc' = "acc @ [summary_of fund]"
  have s: "summary_of fund = \<lparr>scheme_code = dict_get fund ''schemeCode'' JNull,
           scheme_name = dict_get fund ''schemeName'' JNull,
           fund_house = extract_fund_house name,
           category = categorize_fund name\<rparr>"
    by (simp add: summary_of_def name)
  from Cons.prems(2) obtain k where k: "nat limit - length acc = Suc k"
    by (cases "nat limit - length acc") auto
  show ?case
  proof (cases "limit \<le> int (length ?acc')")
    case True
    with Cons.prems(2) have "k = 0" using k by simp
    with True k show ?thesis by (simp add: name s [symmetric])
  next
    case False
    then have lt: "int (length ?acc') < limit" by simp
    have "nat limit - length ?acc' = k" using k by simp
    with Cons.IH [OF rest lt] False k show ?thesis
      by (simp add: name s [symmetric])
  qed
qed

lemma search_funds_blank_query:
  assumes "list_all is_space q" and "1 \<le> limit" and "list_all has_name funds"
  shows "search_funds (Inr funds) q limit = map summary_of (take (nat limit) funds)"
proof -
  from assms(1) have "py_split (py_lower q) = []"
    by (simp add: py_split_def split_run_blank)
  moreover from assms(2) have "int (length ([] :: FundSummary list)) < limit" by simp
  from search_loop_no_terms [OF assms(3) this]
  have "search_loop [] limit funds [] = Inr (map summary_of (take (nat limit) funds))" by simp
  ultimately show ?thesis by (simp add: search_funds_def)
qed

subsection \<open>Return calculator\<close>

lemmas date_defs = parse_dmy_def split_hyphen_def is_digit_def digit_of_def days_in_month_def
  is_leap_def ymd2ord_def days_before_year_def days_before_month_def

lemma date_21_04_2023: "entry_date (nav_entry ''21-04-2023'' v) = Inr 738631"
  by (simp add: entry_date_def nav_entry_def dict_get_def date_defs)

lemma date_21_04_2022: "entry_date (nav_entry ''21-04-2022'' v) = Inr 738266"
  by (simp add: entry_date_def nav_entry_def dict_get_def date_defs)

lemma nav_of_entry: "entry_nav pf (nav_entry d v) = Inr v"
  by (simp add: entry_nav_def nav_entry_def dict_get_def)

lemma round_a: "py_round2 0 = 0"
  by (simp add: py_round2_def round_half_even_def Let_def)

lemma round_b: "py_round2 (45123 / 8000) = 141 / 25"
proof -
  have "\<lfloor>45123 / 80 :: rat\<rfloor> = 564" by (simp add: floor_eq_iff)
  then show ?thesis by (simp add: py_round2_def round_half_even_def Let_def)
qed

text \<open>
  Claim C2. On the history of two points, 845.123 on 21-04-2023 and 800.0 on 21-04-2022,
  \<open>_calculate_returns\<close> returns the entries 1M, 3M, 6M and 1Y; the 1Y entry is 5.64,
  which is within 0.01 of 5.64, and there is no 3Y and no 5Y entry.
\<close>

theorem returns_of_two_point_history:
  "calculate_returns pf [nav_entry ''21-04-2023'' (845123 / 1000), nav_entry ''21-04-2022'' 800]
     = Inr [(''1M'', 0), (''3M'', 0), (''6M'', 0), (''1Y'', 141 / 25)]
   \<and> map_of [(''1M'', 0), (''3M'', 0), (''6M'', 0), (''1Y'', 141 / 25 :: rat)] ''1Y'' = Some (141 / 25)
   \<and> \<bar>141 / 25 - 564 / 100 :: rat\<bar> \<le> 1 / 100
   \<and> map_of [(''1M'', 0), (''3M'', 0), (''6M'', 0), (''1Y'', 141 / 25 :: rat)] ''3Y'' = None
   \<and> map_of [(''1M'', 0), (''3M'', 0), (''6M'', 0), (''1Y'', 141 / 25 :: rat)] ''5Y'' = None"
  by (simp add: calculate_returns_def periods_def period_return_def
        date_21_04_2023 date_21_04_2022 nav_of_entry round_a round_b)

lemma scan_inv_step:
  assumes inv: "scan_inv pf t seen (md, cn)" and wf: "well_formed pf e"
  shows "scan_inv pf t (seen @ [e]) (scan_entries pf t [e] (md, cn))"
proof -
  from wf obtain d v where d: "entry_date e = Inr d" and v: "entry_nav pf e = Inr v"
    by (auto simp: well_formed_def split: sum.splits)
  have diff: "date_diff t e = \<bar>d - t\<bar>" by (simp add: date_diff_def d)
  have md_le: "md \<le> 365"
    using inv by (auto simp: scan_inv_def nearest_within_year_def split: option.splits)
  have lower: "list_all (\<lambda>x. md \<le> date_diff t x) seen"
    using inv by (auto simp: scan_inv_def nearest_within_year_def split: option.splits)
  show ?thesis
  proof (cases "\<bar>d - t\<bar> < md")
    case True
    have "nearest_within_year t (seen @ [e]) (length seen)"
      unfolding nearest_within_year_def
    proof (intro conjI)
      show "length seen < length (seen @ [e])" by simp
      show "date_diff t ((seen @ [e]) ! length seen) < 365"
        using True md_le diff by simp
      show "list_all (\<lambda>x. date_diff t ((seen @ [e]) ! length seen) \<le> date_diff t x) (seen @ [e])"
        using True lower diff by (auto simp: list_all_iff)
      show "list_all (\<lambda>x. date_diff t ((seen @ [e]) ! length seen) < date_diff t x)
              (take (length seen) (seen @ [e]))"
        using True lower diff by (auto simp: list_all_iff)
    qed
    with True d v diff show ?thesis
      by (auto simp: scan_inv_def)
  next
    case False
    show ?thesis
    proof (cases cn)
      case None
      with inv False d diff show ?thesis
        by (auto simp: scan_inv_def)
    next
      case (Some w)
      with inv obtain i where near: "nearest_within_year t seen i"
        and md: "md = date_diff t (seen ! i)" and w: "entry_nav pf (seen ! i) = Inr w"
        by (auto simp: scan_inv_def)
      from near have i: "i < length seen" by (simp add: nearest_within_year_def)
      have "nearest_within_year t (seen @ [e]) i"
        using near False md diff i
        by (auto simp: nearest_within_year_def nth_append)
      with Some False d md w i show ?thesis
        by (auto simp: scan_inv_def nth_append)
    qed
  qed
qed

lemma scan_entries_append:
  "scan_entries pf t (xs @ ys) st = scan_entries pf t ys (scan_entries pf t xs st)"
proof (induction xs arbitrary: st)
  case Nil
  show ?case by simp
next
  case (Cons x xs)
  obtain md cn where st: "st = (md, cn)" by (cases st)
  show ?case unfolding st
    by (simp add: Cons.IH Let_def split: sum.splits)
qed

lemma scan_inv_all:
  "list_all (well_formed pf) rest \<Longrightarrow> scan_inv pf t seen st \<Longrightarrow>
     scan_inv pf t (seen @ rest) (scan_entries pf t rest st)"
proof (induction rest arbitrary: seen st)
  case Nil
  then show ?case by simp
next
  case (Cons e rest)
  obtain md cn where st: "st = (md, cn)" by (cases st)
  from Cons.prems have wf: "well_formed pf e" and wfs: "list_all (well_formed pf) rest"
    by simp_all
  from Cons.prems(2) st have "scan_inv pf t seen (md, cn)" by simp
  from scan_inv_step [OF this wf]
  have "scan_inv pf t (seen @ [e]) (scan_entries pf t [e] st)" by (simp add: st)
  from Cons.IH [OF wfs this]
  have "scan_inv pf t ((seen @ [e]) @ rest) (scan_entries pf t rest (scan_entries pf t [e] st))" .
  moreover have "scan_entries pf t (e # rest) st = scan_entries pf t rest (scan_entries pf t [e] st)"
    using scan_entries_append [of pf t "[e]" rest st] by simp
  ultimately show ?case by simp
qed

lemma scan_inv_init: "scan_inv pf t [] (365, None)"
  by (simp add: scan_inv_def)

lemma closest_nav_spec:
  assumes wf: "list_all (well_formed pf) nav_data"
  shows "case snd (scan_entries pf t nav_data (365, None)) of
           None \<Rightarrow> list_all (\<lambda>e. 365 \<le> date_diff t e) nav_data
         | Some v \<Rightarrow> \<exists>i. nearest_within_year t nav_data i \<and> entry_nav pf (nav_data ! i) = Inr v"
proof -
  from scan_inv_all [OF wf scan_inv_init]
  have "scan_inv pf t nav_data (scan_entries pf t nav_data (365, None))" by simp
  then show ?thesis by (auto simp: scan_inv_def split: option.splits)
qed


lemma period_return_in_range:
  "period_delta < latest_date \<Longrightarrow>
     period_return pf latest_nav latest_date nav_data period_delta
       = Inr (case snd (scan_entries pf (latest_date - period_delta) nav_data (365, None)) of
                None \<Rightarrow> None
              | Some closest_nav \<Rightarrow>
                  if 0 < closest_nav
                  then Some (py_round2 (((latest_nav - closest_nav) / closest_nav) * 100))
                  else None)"
  by (auto simp: period_return_def Let_def split: option.splits)

lemma periods_loop_lookup:
  assumes "list_all (\<lambda>p. snd p < latest_date) ps" and "distinct (map fst ps)"
  shows "\<exists>returns. periods_loop pf latest_nav latest_date nav_data ps acc = Inr returns \<and>
           (\<forall>k. map_of returns k =
              (case map_of ps k of
                 None \<Rightarrow> map_of acc k
               | Some delta \<Rightarrow>
                   (case period_return pf latest_nav latest_date nav_data delta of
                      Inr (Some r) \<Rightarrow> Some r
                    | _ \<Rightarrow> map_of acc k)))"
  using assms
proof (induction ps arbitrary: acc)
  case Nil
  show ?case by simp
next
  case (Cons p ps)
  obtain key delta where p: "p = (key, delta)" by (cases p)
  from Cons.prems p have delta: "delta < latest_date"
    and rest: "list_all (\<lambda>p. snd p < latest_date) ps"
    and fresh: "map_of ps key = None" and dist: "distinct (map fst ps)"
    by (auto simp: map_of_eq_None_iff)
  from period_return_in_range [OF delta]
  obtain r where r: "period_return pf latest_nav latest_date nav_data delta = Inr r" by blast
  show ?case
  proof (cases r)
    case None
    from Cons.IH [OF rest dist, of acc] obtain returns
      where run: "periods_loop pf latest_nav latest_date nav_data ps acc = Inr returns"
        and look: "\<forall>k. map_of returns k =
              (case map_of ps k of
                 None \<Rightarrow> map_of acc k
               | Some delta \<Rightarrow>
                   (case period_return pf latest_nav latest_date nav_data delta of
                      Inr (Some r) \<Rightarrow> Some r
                    | _ \<Rightarrow> map_of acc k))"
      by blast
    from run r None p have "periods_loop pf latest_nav latest_date nav_data (p # ps) acc = Inr returns"
      by simp
    moreover from look fresh r None p have "\<forall>k. map_of returns k =
              (case map_of (p # ps) k of
                 None \<Rightarrow> map_of acc k
               | Some delta \<Rightarrow>
                   (case period_return pf latest_nav latest_date nav_data delta of
                      Inr (Some r) \<Rightarrow> Some r
                    | _ \<Rightarrow> map_of acc k))"
      by simp
    ultimately show ?thesis by blast
  next
    case (Some x)
    let ?acc = "AList.update key x acc"
    from Cons.IH [OF rest dist, of ?acc] obtain returns
      where run: "periods_loop pf latest_nav latest_date nav_data ps ?acc = Inr returns"
        and look: "\<forall>k. map_of returns k =
              (case map_of ps k of
                 None \<Rightarrow> map_of ?acc k
               | Some delta \<Rightarrow>
                   (case period_return pf latest_nav latest_date nav_data delta of
                      Inr (Some r) \<Rightarrow> Some r
                    | _ \<Rightarrow> map_of ?acc k))"
      by blast
    from run r Some p have "periods_loop pf latest_nav latest_date nav_data (p # ps) acc = Inr returns"
      by simp
    moreover have "map_of returns k =
              (case map_of (p # ps) k of
                 None \<Rightarrow> map_of acc k
               | Some delta \<Rightarrow>
                   (case period_return pf latest_nav latest_date nav_data delta of
                      Inr (Some r) \<Rightarrow> Some r
                    | _ \<Rightarrow> map_of acc k))" for k
    proof (cases "k = key")
      case True
      with look fresh r Some p show ?thesis by (simp add: update_conv')
    next
      case False
      with look p show ?thesis
        by (simp add: update_conv' split: option.splits sum.splits)
    qed
    ultimately show ?thesis by blast
  qed
qed

lemma nearest_within_year_unique:
  assumes i: "nearest_within_year t nav_data i" and j: "nearest_within_year t nav_data j"
  shows "i = j"
proof -
  have False if lt: "a < b" and a: "nearest_within_year t nav_data a"
    and b: "nearest_within_year t nav_data b" for a b
  proof -
    from b have blen: "b < length nav_data" by (simp add: nearest_within_year_def)
    with lt have "nav_data ! a \<in> set (take b nav_data)"
      by (metis in_set_conv_nth length_take min.absorb2 nth_take less_or_eq_imp_le)
    with b have "date_diff t (nav_data ! b) < date_diff t (nav_data ! a)"
      by (simp add: nearest_within_year_def list_all_iff)
    moreover from blen have "nav_data ! b \<in> set nav_data" by simp
    with a have "date_diff t (nav_data ! a) \<le> date_diff t (nav_data ! b)"
      by (simp add: nearest_within_year_def list_all_iff)
    ultimately show False by simp
  qed
  from this [of i j] this [of j i] i j show ?thesis by (cases i j rule: linorder_cases) auto
qed

text \<open>
  Claim C3, as the code has it. The history has at least two entries, every date parses
  and every value converts, and the latest date lies more than 1825 days after the start
  of the calendar. Then the calculator returns, and for each of the six windows: when the
  window has an entry, it is computed from the value \<open>v > 0\<close> of the selected entry, the
  first entry of smallest distance to the target date among the entries less than 365
  days from it; when the window is left out, either every entry lies 365 days or more
  from the target date, or the value of the selected entry is not positive.
\<close>

theorem window_return_from_nearest_within_year:
  assumes data: "nav_data = first # second # others"
    and wf: "list_all (well_formed pf) nav_data"
    and latest_date: "entry_date first = Inr latest_date"
    and latest_nav: "entry_nav pf first = Inr latest_nav"
    and range: "1825 < latest_date"
    and period: "(period_key, period_delta) \<in> set periods"
  shows "\<exists>returns. calculate_returns pf nav_data = Inr returns \<and>
           (case map_of returns period_key of
              None \<Rightarrow>
                list_all (\<lambda>e. 365 \<le> date_diff (latest_date - period_delta) e) nav_data
                \<or> (\<exists>i v. nearest_within_year (latest_date - period_delta) nav_data i
                        \<and> entry_nav pf (nav_data ! i) = Inr v \<and> v \<le> 0)
            | Some r \<Rightarrow>
                (\<exists>i v. nearest_within_year (latest_date - period_delta) nav_data i
                     \<and> entry_nav pf (nav_data ! i) = Inr v \<and> 0 < v
                     \<and> r = py_round2 (((latest_nav - v) / v) * 100)))"
proof -
  let ?t = "latest_date - period_delta"
  have in_range: "list_all (\<lambda>p. snd p < latest_date) periods"
    using range by (simp add: periods_def)
  have dist: "distinct (map fst periods)" by (simp add: periods_def)
  from periods_loop_lookup [OF in_range dist, of pf latest_nav nav_data "[]"]
  obtain returns
    where run: "periods_loop pf latest_nav latest_date nav_data periods [] = Inr returns"
      and look: "\<forall>k. map_of returns k =
              (case map_of periods k of
                 None \<Rightarrow> map_of [] k
               | Some delta \<Rightarrow>
                   (case period_return pf latest_nav latest_date nav_data delta of
                      Inr (Some r) \<Rightarrow> Some r
                    | _ \<Rightarrow> map_of [] k))"
    by blast
  from run data latest_date latest_nav have calc: "calculate_returns pf nav_data = Inr returns"
    by (simp add: calculate_returns_def)
  from period dist have "map_of periods period_key = Some period_delta" by simp
  with look have key: "map_of returns period_key =
      (case period_return pf latest_nav latest_date nav_data period_delta of
         Inr (Some r) \<Rightarrow> Some r | _ \<Rightarrow> None)"
    by (simp split: sum.splits option.splits)
  from period range have "period_delta < latest_date" by (auto simp: periods_def)
  note ret = period_return_in_range [OF this, of pf latest_nav nav_data]
  note spec = closest_nav_spec [OF wf, of ?t]
  show ?thesis
  proof (cases "snd (scan_entries pf ?t nav_data (365, None))")
    case None
    with spec have "list_all (\<lambda>e. 365 \<le> date_diff ?t e) nav_data" by simp
    moreover from None ret key have "map_of returns period_key = None" by simp
    ultimately show ?thesis using calc by simp
  next
    case (Some v)
    with spec obtain i where near: "nearest_within_year ?t nav_data i"
      and v: "entry_nav pf (nav_data ! i) = Inr v" by auto
    show ?thesis
    proof (cases "0 < v")
      case True
      with Some ret key
      have "map_of returns period_key = Some (py_round2 (((latest_nav - v) / v) * 100))"
        by simp
      with calc near v True show ?thesis by auto
    next
      case False
      with Some ret key have "map_of returns period_key = None" by simp
      moreover from False have "v \<le> 0" by simp
      ultimately show ?thesis using calc near v by auto
    qed
  qed
qed


lemma date_20_04_2022: "entry_date (nav_entry ''20-04-2022'' v) = Inr 738265"
  by (simp add: entry_date_def nav_entry_def dict_get_def date_defs)

lemma date_22_04_2022: "entry_date (nav_entry ''22-04-2022'' v) = Inr 738267"
  by (simp add: entry_date_def nav_entry_def dict_get_def date_defs)

lemma date_21_04_2020: "entry_date (nav_entry ''21-04-2020'' v) = Inr 737536"
  by (simp add: entry_date_def nav_entry_def dict_get_def date_defs)

lemma date_iso_2022: "entry_date (nav_entry ''2022-04-21'' v) = Inl ValueError"
  by (simp add: entry_date_def nav_entry_def dict_get_def date_defs)

lemma date_iso_2023: "entry_date (nav_entry ''2023-04-21'' v) = Inl ValueError"
  by (simp add: entry_date_def nav_entry_def dict_get_def date_defs)

lemmas entry_dates = date_21_04_2023 date_21_04_2022 date_20_04_2022 date_22_04_2022
  date_21_04_2020 date_iso_2022 date_iso_2023

lemma round_10: "py_round2 10 = 10"
  by (simp add: py_round2_def round_half_even_def Let_def)

lemma round_100: "py_round2 100 = 100"
  by (simp add: py_round2_def round_half_even_def Let_def)

lemma tie_history_returns:
  "calculate_returns no_float tie_history = Inr [(''1M'', 0), (''3M'', 0), (''6M'', 0), (''1Y'', 10)]"
  by (simp add: tie_history_def calculate_returns_def periods_def period_return_def
        entry_dates nav_of_entry round_a round_10)

theorem window_return_from_nearest_within_year_witness:
  "tie_history = nav_entry ''21-04-2023'' 110 # nav_entry ''20-04-2022'' 100 # [nav_entry ''22-04-2022'' 105]
   \<and> list_all (well_formed no_float) tie_history
   \<and> entry_date (nav_entry ''21-04-2023'' 110) = Inr 738631
   \<and> entry_nav no_float (nav_entry ''21-04-2023'' 110) = Inr 110
   \<and> (1825::int) < 738631
   \<and> (''1Y'', 365) \<in> set periods
   \<and> calculate_returns no_float tie_history = Inr [(''1M'', 0), (''3M'', 0), (''6M'', 0), (''1Y'', 10)]
   \<and> (\<exists>i v. nearest_within_year (738631 - 365) tie_history i
              \<and> entry_nav no_float (tie_history ! i) = Inr v \<and> 0 < v
              \<and> (10::rat) = py_round2 (((110 - v) / v) * 100))"
proof -
  have data: "tie_history
      = nav_entry ''21-04-2023'' 110 # nav_entry ''20-04-2022'' 100 # [nav_entry ''22-04-2022'' 105]"
    by (simp add: tie_history_def)
  have wf: "list_all (well_formed no_float) tie_history"
    by (simp add: tie_history_def well_formed_def entry_dates nav_of_entry)
  have latest_date: "entry_date (nav_entry ''21-04-2023'' 110) = Inr 738631"
    by (rule date_21_04_2023)
  have latest_nav: "entry_nav no_float (nav_entry ''21-04-2023'' 110) = Inr 110"
    by (rule nav_of_entry)
  have range: "(1825::int) < 738631" by simp
  have period: "(''1Y'', 365) \<in> set periods" by (simp add: periods_def)
  from window_return_from_nearest_within_year [OF data wf latest_date latest_nav range period]
  have "\<exists>i v. nearest_within_year (738631 - 365) tie_history i
              \<and> entry_nav no_float (tie_history ! i) = Inr v \<and> 0 < v
              \<and> (10::rat) = py_round2 (((110 - v) / v) * 100)"
    by (simp add: tie_history_returns)
  with data wf latest_date latest_nav range period tie_history_returns show ?thesis by blast
qed

text \<open>
  Claim C3 as stated fails: both entries of the history have a date that parses and a
  positive value, and the 1Y window is left out, since the two entries lie 365 and 730
  days from its target date.
\<close>

theorem window_omitted_with_valid_points_counterexample:
  "list_all (well_formed no_float) far_history
   \<and> calculate_returns no_float far_history
       = Inr [(''1M'', 0), (''3M'', 0), (''6M'', 0), (''3Y'', 100)]
   \<and> map_of [(''1M'', 0), (''3M'', 0), (''6M'', 0), (''3Y'', 100 :: rat)] ''1Y'' = None"
  by (simp add: far_history_def well_formed_def calculate_returns_def periods_def
        period_return_def entry_dates nav_of_entry round_a round_100)









subsection \<open>Pipeline stages\<close>

text \<open>
  Claim C9. For every state and each of the five stages, on every branch of the stage, the
  conversation history of the returned state starts with the conversation history of
  the incoming state: a stage puts back the history it read, with or without new entries
  at the end.
\<close>

theorem history_is_append_only:
  "prefix (get_chat_history state) (get_chat_history (fst (analyze_query env state)))
   \<and> prefix (get_chat_history state) (get_chat_history (fst (search_funds_node env state)))
   \<and> prefix (get_chat_history state) (get_chat_history (fst (fetch_fund_details env state)))
   \<and> prefix (get_chat_history state) (get_chat_history (fst (analyze_funds env state)))
   \<and> prefix (get_chat_history state) (get_chat_history (fst (generate_final_response env state)))"
proof (intro conjI)
  show "prefix (get_chat_history state) (get_chat_history (fst (analyze_query env state)))"
    by (simp add: analyze_query_def get_chat_history_def Let_def split: sum.splits)
  show "prefix (get_chat_history state) (get_chat_history (fst (search_funds_node env state)))"
    by (simp add: search_funds_node_def get_chat_history_def Let_def split: sum.splits)
  show "prefix (get_chat_history state) (get_chat_history (fst (fetch_fund_details env state)))"
    by (simp add: fetch_fund_details_def get_chat_history_def Let_def split: sum.splits)
  show "prefix (get_chat_history state) (get_chat_history (fst (analyze_funds env state)))"
    by (simp add: analyze_funds_def get_chat_history_def Let_def split: sum.splits list.splits)
  show "prefix (get_chat_history state) (get_chat_history (fst (generate_final_response env state)))"
    by (simp add: generate_final_response_def get_chat_history_def Let_def split: sum.splits)
qed




text \<open>
  A run of the whole graph on a query about a fund that the listing does not hold.
\<close>

lemma lower_xyz: "py_lower ''XYZ Growth'' = ''xyz growth''"
  by code_simp

lemma lower_analysis_line: "py_lower ''Fund name: XYZ Growth'' = ''fund name: xyz growth''"
  by code_simp

lemma names_of_demo_analysis: "extract_fund_names ''Fund name: XYZ Growth'' = [''XYZ Growth'']"
proof -
  have "py_strip '' XYZ Growth'' = ''XYZ Growth''"
    by (simp add: py_strip_def is_space_def)
  then show ?thesis
    by (simp add: extract_fund_names_def py_split_on_def name_of_line_def
          lower_analysis_line lower_xyz)
qed

lemma split_xyz: "py_split ''xyz growth'' = [''xyz'', ''growth'']"
  by (simp add: py_split_def is_space_def)

lemma search_xyz:
  "search_funds (Inr [hdfc_top_100, icici_bluechip]) ''XYZ Growth'' 5 = []"
  by (simp add: search_funds_def lower_xyz split_xyz hdfc_top_100_def icici_bluechip_def
        dict_get_def lower_hdfc_name lower_icici_bluechip)

lemma demo_after_analysis:
  "analyze_query demo_env (initial_state ''Tell me about XYZ Growth'' [])
     = ((initial_state ''Tell me about XYZ Growth'' [])
          \<lparr>query_analysis := Some ''Fund name: XYZ Growth'',
           fund_names := Some [''XYZ Growth''],
           chat_history := Some [HumanMessage ''Tell me about XYZ Growth'',
             AIMessage ''I'm analyzing your query about mutual funds.'']\<rparr>,
        [(QUERY_ANALYSIS_PROMPT ''Tell me about XYZ Growth'', None)])"
  by (simp add: analyze_query_def demo_env_def demo_generate_def initial_state_def
        get_chat_history_def names_of_demo_analysis Let_def)

lemma demo_after_search:
  "search_funds_node demo_env (fst (analyze_query demo_env (initial_state ''Tell me about XYZ Growth'' [])))
     = ((initial_state ''Tell me about XYZ Growth'' [])
          \<lparr>query_analysis := Some ''Fund name: XYZ Growth'',
           fund_names := Some [''XYZ Growth''],
           search_results := Some [],
           chat_history := Some [HumanMessage ''Tell me about XYZ Growth'',
             AIMessage ''I'm analyzing your query about mutual funds.'',
             AIMessage ''I found 0 funds that match your query.'']\<rparr>,
        [])"
  unfolding demo_after_analysis
  by (simp add: search_funds_node_def demo_env_def initial_state_def get_chat_history_def
        get_fund_names_def search_xyz unique_results_def Let_def)

text \<open>
  Claim C7 at this run: the search stage produces no results, \<open>analyze_funds\<close> sets
  the response to the apology for the empty detail list, and \<open>generate_final_response\<close>
  then replaces it by the text generated for the final prompt, which is what
  \<open>process_query\<close> delivers.
\<close>

theorem no_results_response_is_overwritten:
  "search_results
     (fst (search_funds_node demo_env
        (fst (analyze_query demo_env (initial_state ''Tell me about XYZ Growth'' [])))))
     = Some []
   \<and> process_query demo_env ''Tell me about XYZ Growth'' [] = ''I have no data on that fund.''
   \<and> ''I have no data on that fund.'' \<noteq> no_funds_response"
proof -
  have run: "response (fst (run_graph demo_env (initial_state ''Tell me about XYZ Growth'' [])))
      = Some ''I have no data on that fund.''"
    using demo_after_analysis demo_after_search
    by (simp add: run_graph_def fetch_fund_details_def analyze_funds_def
          generate_final_response_def get_search_results_def get_fund_details_def
          get_chat_history_def get_fund_analysis_def error_recorded_def
          demo_env_def demo_generate_def initial_state_def Let_def split: prod.splits)
  then show ?thesis
    by (simp add: process_query_def demo_after_search no_funds_response_def)
qed


text \<open>
  The other half of claim C7 holds in every run: when the search stage produces no
  results, neither the analysis prompt nor the comparison prompt is sent.
\<close>

lemma analyze_query_prompts:
  "list_all (\<lambda>c. \<not> is_analysis_prompt (fst c)) (snd (analyze_query env state))"
  by (simp add: analyze_query_def Let_def split: sum.splits)

lemma search_funds_node_prompts:
  "list_all (\<lambda>c. \<not> is_analysis_prompt (fst c)) (snd (search_funds_node env state))"
  by (simp add: search_funds_node_def Let_def split: sum.splits)

lemma fetch_fund_details_prompts: "snd (fetch_fund_details env state) = []"
  by (simp add: fetch_fund_details_def Let_def split: sum.splits)

lemma fetch_fund_details_none:
  "get_search_results state = [] \<Longrightarrow>
     get_fund_details (fst (fetch_fund_details env state)) = []"
  by (simp add: fetch_fund_details_def get_fund_details_def Let_def)

lemma analyze_funds_none:
  "get_fund_details state = [] \<Longrightarrow>
     analyze_funds env state
       = (state\<lparr>response := Some no_funds_response,
                 chat_history := Some (get_chat_history state @
                   [AIMessage ''I couldn't find any mutual funds matching your query.''])\<rparr>, [])"
  by (simp add: analyze_funds_def Let_def)

lemma generate_final_response_prompts:
  "list_all (\<lambda>c. \<not> is_analysis_prompt (fst c)) (snd (generate_final_response env state))"
  by (simp add: generate_final_response_def Let_def split: sum.splits)

lemma no_results_no_analysis_prompt:
  assumes "get_search_results (fst (search_funds_node env (fst (analyze_query env state)))) = []"
  shows "list_all (\<lambda>c. \<not> is_analysis_prompt (fst c)) (snd (run_graph env state))"
proof -
  let ?s2 = "fst (search_funds_node env (fst (analyze_query env state)))"
  let ?s3 = "fst (fetch_fund_details env ?s2)"
  from assms have "get_fund_details ?s3 = []" by (rule fetch_fund_details_none)
  then have "snd (analyze_funds env ?s3) = []" by (simp add: analyze_funds_none)
  then show ?thesis
    using analyze_query_prompts [of env state]
      search_funds_node_prompts [of env "fst (analyze_query env state)"]
      fetch_fund_details_prompts [of env ?s2]
      generate_final_response_prompts [of env "fst (analyze_funds env ?s3)"]
    by (simp add: run_graph_def Let_def split_beta)
qed

end
